theory Spec2Isabelle
  imports Complex_Main
begin

section \<open>Data model\<close>

text \<open>
  The server keeps two MongoDB collections. A collection is modelled as the list of its
  documents in insertion order; the position of a document in the list plays the role of
  its \<^verbatim>\<open>_id\<close>. JavaScript numbers are modelled as real numbers (rounding of IEEE
  doubles is not modelled). The \<^verbatim>\<open>timestamp\<close> field of a purchase, which no
  handler reads, is left out.

  \<^verbatim>\<open>purchaseSchema\<close> declares no required field and no unique index. The webhook
  handler may store a purchase whose \<^verbatim>\<open>walletAddress\<close> is undefined, hence the option.
  \<^verbatim>\<open>referralCodeUsed\<close> is \<open>None\<close> when the stored value is null or missing.
\<close>

record purchase =
  walletAddress :: "string option"
  usdSpent :: real
  tokensReceived :: real
  transactionId :: string
  referralCodeUsed :: "string option"

text \<open>\<^verbatim>\<open>userSchema\<close> (models/User.js): both string fields carry a unique index.\<close>

record user =
  user_walletAddress :: string
  referralCode :: "string option"
  referralEarnings :: real

record db =
  purchases :: "purchase list"
  users :: "user list"

datatype js_error = TypeError | RpcError | InvalidPublicKey | ValidationError | DuplicateKey

datatype payload =
    Error string
  | Message string
  | TotalUSD real
  | UserInfo string "string option" real
  | UserPurchases real real
  | Leaderboard "user list"

datatype response = Response nat payload

section \<open>The environment: Solana RPC node and process configuration\<close>

text \<open>
  \<^verbatim>\<open>solanaConnection.getTransaction\<close> either throws (node unreachable, timeout,
  malformed answer), resolves to null, or resolves to a transaction of which the verifier
  reads only \<^verbatim>\<open>transaction.message.accountKeys\<close>. The constructor
  \<^verbatim>\<open>new PublicKey(s)\<close> of @solana/web3.js is a parameter: it throws on text that is
  not a key (\<open>None\<close>) and otherwise yields the key, compared by \<^verbatim>\<open>equals\<close>.
\<close>

datatype rpc_result = RpcThrows | TxNull | TxInfo "string list"

record env =
  getTransaction :: "string \<Rightarrow> rpc_result"
  PublicKey :: "string \<Rightarrow> string option"
  PRESALE_WALLET :: "string option"

section \<open>validateSignatureOnChain\<close>

definition presaleWalletKey :: "env \<Rightarrow> string" where
  "presaleWalletKey e =
     (case PRESALE_WALLET e of
        None \<Rightarrow> ''4qdqnmNxUTjKTJMhVztPxtgwVuU7p2aoJMCJVFEQ6Wzw''
      | Some s \<Rightarrow> if s = [] then ''4qdqnmNxUTjKTJMhVztPxtgwVuU7p2aoJMCJVFEQ6Wzw'' else s)"

text \<open>The body of the \<^verbatim>\<open>try\<close> block; \<open>Inl\<close> is an exception raised inside it.\<close>

definition validate_try :: "env \<Rightarrow> string \<Rightarrow> string \<Rightarrow> real \<Rightarrow> js_error + bool" where
  "validate_try e txSignature fromWallet expectedUsdSpent =
     (case getTransaction e txSignature of
        RpcThrows \<Rightarrow> Inl RpcError
      | TxNull \<Rightarrow> Inr False
      | TxInfo accountKeys \<Rightarrow>
          (case PublicKey e fromWallet of
             None \<Rightarrow> Inl InvalidPublicKey
           | Some fromPubKey \<Rightarrow>
               (case accountKeys of
                  [] \<Rightarrow> Inl TypeError
                | k0 # ks \<Rightarrow>
                    if k0 \<noteq> fromPubKey then Inr False
                    else (case PublicKey e (presaleWalletKey e) of
                            None \<Rightarrow> Inl InvalidPublicKey
                          | Some presaleWallet \<Rightarrow>
                              if presaleWallet \<in> set accountKeys then Inr True
                              else Inr False))))"

text \<open>The \<^verbatim>\<open>catch\<close> clause turns every exception of the block into \<^verbatim>\<open>false\<close>.\<close>

definition validateSignatureOnChain ::
    "env \<Rightarrow> string \<Rightarrow> string \<Rightarrow> real \<Rightarrow> js_error + bool" where
  "validateSignatureOnChain e txSignature fromWallet expectedUsdSpent =
     (case validate_try e txSignature fromWallet expectedUsdSpent of
        Inl err \<Rightarrow> Inr False
      | Inr b \<Rightarrow> Inr b)"

section \<open>Collection operations\<close>

text \<open>\<^verbatim>\<open>Purchase.findOne({ transactionId })\<close>: the first matching document, or null.\<close>

definition findOne_purchase :: "purchase list \<Rightarrow> string \<Rightarrow> purchase option" where
  "findOne_purchase ps tid = find (\<lambda>p. transactionId p = tid) ps"

text \<open>\<^verbatim>\<open>newPurchase.save()\<close>: the collection has no unique index, the insert succeeds.\<close>

definition save_purchase :: "db \<Rightarrow> purchase \<Rightarrow> db" where
  "save_purchase d p = d\<lparr>purchases := purchases d @ [p]\<rparr>"

text \<open>
  \<^verbatim>\<open>User.findOne({ referralCode })\<close>: the first matching document with its position,
  or null.
\<close>

fun find_index_from :: "('a \<Rightarrow> bool) \<Rightarrow> nat \<Rightarrow> 'a list \<Rightarrow> (nat \<times> 'a) option" where
  "find_index_from P i [] = None"
| "find_index_from P i (x # xs) = (if P x then Some (i, x) else find_index_from P (Suc i) xs)"

definition findOne_user_by_code :: "user list \<Rightarrow> string \<Rightarrow> (nat \<times> user) option" where
  "findOne_user_by_code us code = find_index_from (\<lambda>u. referralCode u = Some code) 0 us"

definition findOne_user_by_wallet :: "user list \<Rightarrow> string \<Rightarrow> (nat \<times> user) option" where
  "findOne_user_by_wallet us w = find_index_from (\<lambda>u. user_walletAddress u = w) 0 us"

text \<open>
  \<^verbatim>\<open>refUser.save()\<close> on a loaded document whose \<^verbatim>\<open>referralEarnings\<close> was assigned:
  Mongoose writes the assigned value into the stored document with that \<^verbatim>\<open>_id\<close>
  (an update that sets the modified path), whatever the stored value is by then.
\<close>

definition save_earnings :: "db \<Rightarrow> nat \<Rightarrow> real \<Rightarrow> db" where
  "save_earnings d i v =
     (if i < length (users d)
      then d\<lparr>users := (users d)[i := (users d ! i)\<lparr>referralEarnings := v\<rparr>]\<rparr>
      else d)"

section \<open>GET /raised-amount\<close>

text \<open>
  The aggregation pipeline with one \<^verbatim>\<open>$group\<close> stage and \<^verbatim>\<open>_id: null\<close>: no group
  for an empty collection, otherwise one group holding the sum.
\<close>

definition aggregate_totalUSD :: "purchase list \<Rightarrow> real list" where
  "aggregate_totalUSD ps = (if ps = [] then [] else [sum_list (map usdSpent ps)])"

definition raised_amount :: "db \<Rightarrow> response" where
  "raised_amount d =
     (let totalRaised = aggregate_totalUSD (purchases d);
          s = (case totalRaised of [] \<Rightarrow> 0 | t # ts \<Rightarrow> t)
      in Response 200 (TotalUSD s))"

section \<open>POST /purchase\<close>

text \<open>
  The request body as the handler destructures it. A field is \<open>None\<close> when it is absent
  from the body; the text fields are JSON strings and the amounts JSON numbers. A value
  is falsy when it is absent, the empty string or zero.
\<close>

record purchase_body =
  body_walletAddress :: "string option"
  body_usdSpent :: "real option"
  body_tokensReceived :: "real option"
  body_transactionId :: "string option"
  body_referralCode :: "string option"

definition truthy_str :: "string option \<Rightarrow> bool" where
  "truthy_str v = (case v of None \<Rightarrow> False | Some s \<Rightarrow> s \<noteq> [])"

definition truthy_num :: "real option \<Rightarrow> bool" where
  "truthy_num v = (case v of None \<Rightarrow> False | Some x \<Rightarrow> x \<noteq> 0)"

definition missing_data :: response where
  "missing_data = Response 400 (Error ''Missing data'')"

definition invalid_transaction :: response where
  "invalid_transaction = Response 400 (Error ''Invalid or fake transaction.'')"

definition unable_to_validate :: response where
  "unable_to_validate = Response 400 (Error ''Unable to validate transaction.'')"

definition duplicate_transaction :: response where
  "duplicate_transaction = Response 400 (Error ''Duplicate transaction detected'')"

definition recorded :: response where
  "recorded = Response 200 (Message ''Purchase recorded successfully'')"

text \<open>The referral step, after the purchase is saved.\<close>

definition referral_credit :: "db \<Rightarrow> string option \<Rightarrow> real \<Rightarrow> db" where
  "referral_credit d code usd =
     (if truthy_str code
      then (case findOne_user_by_code (users d) (the code) of
              None \<Rightarrow> d
            | Some (i, refUser) \<Rightarrow>
                (let bonus = 0.05 * usd
                 in save_earnings d i (referralEarnings refUser + bonus)))
      else d)"

definition new_purchase :: "string \<Rightarrow> real \<Rightarrow> real \<Rightarrow> string \<Rightarrow> string option \<Rightarrow> purchase" where
  "new_purchase w usd tok tid code =
     \<lparr>walletAddress = Some w, usdSpent = usd, tokensReceived = tok, transactionId = tid,
      referralCodeUsed = (if truthy_str code then code else None)\<rparr>"

text \<open>The handler from the on-chain validation on, for a body that passed the basic checks.\<close>

definition purchase_checked ::
    "env \<Rightarrow> db \<Rightarrow> string \<Rightarrow> real \<Rightarrow> real \<Rightarrow> string \<Rightarrow> string option \<Rightarrow> db \<times> response" where
  "purchase_checked e d w usd tok tid code =
     (case validateSignatureOnChain e tid w usd of
        Inl err \<Rightarrow> (d, unable_to_validate)
      | Inr isValid \<Rightarrow>
          if \<not> isValid then (d, invalid_transaction)
          else (case findOne_purchase (purchases d) tid of
                  Some existingTx \<Rightarrow> (d, duplicate_transaction)
                | None \<Rightarrow>
                    (referral_credit (save_purchase d (new_purchase w usd tok tid code)) code usd,
                     recorded)))"

definition post_purchase :: "env \<Rightarrow> db \<Rightarrow> purchase_body \<Rightarrow> db \<times> response" where
  "post_purchase e d b =
     (if \<not> truthy_str (body_walletAddress b) \<or> \<not> truthy_num (body_usdSpent b)
         \<or> \<not> truthy_num (body_tokensReceived b) \<or> \<not> truthy_str (body_transactionId b)
      then (d, missing_data)
      else purchase_checked e d (the (body_walletAddress b)) (the (body_usdSpent b))
             (the (body_tokensReceived b)) (the (body_transactionId b)) (body_referralCode b))"

text \<open>
  The response message of the source starts with a check-mark emoji, left out here.
\<close>

section \<open>POST /purchase as a sequence of awaited operations\<close>

text \<open>
  The handler is an \<^verbatim>\<open>async\<close> function: between two \<^verbatim>\<open>await\<close>s it runs without
  interruption, and at each \<^verbatim>\<open>await\<close> other requests may run. A task records where a
  request stands: which awaited operation comes next and the local variables it still
  needs. One step performs the awaited operation on the current database and runs the
  handler up to its next \<^verbatim>\<open>await\<close> or to its response.
\<close>

datatype purchase_task =
    AtStart purchase_body
  | AwaitFindTx string real real string "string option"
  | AwaitSaveTx string real real string "string option"
  | AwaitFindRef string real
  | AwaitSaveRef nat real
  | Responded response

fun step :: "env \<Rightarrow> db \<Rightarrow> purchase_task \<Rightarrow> db \<times> purchase_task" where
  "step e d (AtStart b) =
     (if \<not> truthy_str (body_walletAddress b) \<or> \<not> truthy_num (body_usdSpent b)
         \<or> \<not> truthy_num (body_tokensReceived b) \<or> \<not> truthy_str (body_transactionId b)
      then (d, Responded missing_data)
      else (case validateSignatureOnChain e (the (body_transactionId b))
                   (the (body_walletAddress b)) (the (body_usdSpent b)) of
              Inl err \<Rightarrow> (d, Responded unable_to_validate)
            | Inr isValid \<Rightarrow>
                if \<not> isValid then (d, Responded invalid_transaction)
                else (d, AwaitFindTx (the (body_walletAddress b)) (the (body_usdSpent b))
                           (the (body_tokensReceived b)) (the (body_transactionId b))
                           (body_referralCode b))))"
| "step e d (AwaitFindTx w usd tok tid code) =
     (case findOne_purchase (purchases d) tid of
        Some existingTx \<Rightarrow> (d, Responded duplicate_transaction)
      | None \<Rightarrow> (d, AwaitSaveTx w usd tok tid code))"
| "step e d (AwaitSaveTx w usd tok tid code) =
     (save_purchase d (new_purchase w usd tok tid code),
      if truthy_str code then AwaitFindRef (the code) usd else Responded recorded)"
| "step e d (AwaitFindRef code usd) =
     (case findOne_user_by_code (users d) code of
        None \<Rightarrow> (d, Responded recorded)
      | Some (i, refUser) \<Rightarrow> (d, AwaitSaveRef i (referralEarnings refUser + 0.05 * usd)))"
| "step e d (AwaitSaveRef i v) = (save_earnings d i v, Responded recorded)"
| "step e d (Responded r) = (d, Responded r)"

text \<open>A request served with no other request in between: its five steps in a row.\<close>

definition run_alone :: "env \<Rightarrow> db \<Rightarrow> purchase_task \<Rightarrow> db \<times> purchase_task" where
  "run_alone e d t =
     (let (d1, t1) = step e d t; (d2, t2) = step e d1 t1; (d3, t3) = step e d2 t2;
          (d4, t4) = step e d3 t3
      in step e d4 t4)"

text \<open>
  Several requests in flight: the schedule names, step by step, the request whose
  awaited operation completes next.
\<close>

fun run_schedule :: "env \<Rightarrow> nat list \<Rightarrow> db \<times> purchase_task list \<Rightarrow> db \<times> purchase_task list" where
  "run_schedule e [] s = s"
| "run_schedule e (i # sched) (d, ts) =
     (if i < length ts
      then (case step e d (ts ! i) of (d', t') \<Rightarrow> run_schedule e sched (d', ts[i := t']))
      else run_schedule e sched (d, ts))"

section \<open>POST /webhook/solana-inbound\<close>

text \<open>
  An instruction of a delivered transaction either has no \<^verbatim>\<open>parsed.info\<close> or has one,
  of which the handler reads \<^verbatim>\<open>destination\<close> (\<open>None\<close> when undefined) and
  \<^verbatim>\<open>amount\<close>, given here as the value of \<^verbatim>\<open>parseFloat(amount)\<close> (\<open>None\<close> when that
  is NaN). \<^verbatim>\<open>tx.signers\<close> is \<open>None\<close> when the record has no such field, and
  \<^verbatim>\<open>tx.instructions || []\<close> is the instruction list.
\<close>

datatype instruction = Unparsed | Parsed "string option" "real option"

record helius_tx =
  signature :: string
  instructions :: "instruction list"
  signers :: "string list option"

text \<open>
  One pass of the inner loop body. The second component is the exception that leaves the
  loops, if any: reading \<^verbatim>\<open>tx.signers[0]\<close> of an undefined \<^verbatim>\<open>signers\<close> is a
  TypeError, and saving a purchase whose \<^verbatim>\<open>usdSpent\<close> is NaN is rejected by the
  schema's Number cast.
\<close>

definition process_instruction :: "env \<Rightarrow> helius_tx \<Rightarrow> db \<Rightarrow> instruction \<Rightarrow> db \<times> js_error option" where
  "process_instruction e tx d inst =
     (case inst of
        Unparsed \<Rightarrow> (d, None)
      | Parsed destination amount \<Rightarrow>
          if destination = PRESALE_WALLET e
          then (case signers tx of
                  None \<Rightarrow> (d, Some TypeError)
                | Some sg \<Rightarrow>
                    (case findOne_purchase (purchases d) (signature tx) of
                       Some existingTx \<Rightarrow> (d, None)
                     | None \<Rightarrow>
                         (case amount of
                            None \<Rightarrow> (d, Some ValidationError)
                          | Some a \<Rightarrow>
                              (let usd = a / 1000000; tok = usd / 0.00851
                               in (save_purchase d
                                     \<lparr>walletAddress = (case sg of [] \<Rightarrow> None | s # ss \<Rightarrow> Some s),
                                      usdSpent = usd, tokensReceived = tok,
                                      transactionId = signature tx,
                                      referralCodeUsed = None\<rparr>, None)))))
          else (d, None))"

fun process_instructions :: "env \<Rightarrow> helius_tx \<Rightarrow> db \<Rightarrow> instruction list \<Rightarrow> db \<times> js_error option" where
  "process_instructions e tx d [] = (d, None)"
| "process_instructions e tx d (inst # rest) =
     (case process_instruction e tx d inst of
        (d', Some err) \<Rightarrow> (d', Some err)
      | (d', None) \<Rightarrow> process_instructions e tx d' rest)"

fun process_transactions :: "env \<Rightarrow> db \<Rightarrow> helius_tx list \<Rightarrow> db \<times> js_error option" where
  "process_transactions e d [] = (d, None)"
| "process_transactions e d (tx # rest) =
     (case process_instructions e tx d (instructions tx) of
        (d', Some err) \<Rightarrow> (d', Some err)
      | (d', None) \<Rightarrow> process_transactions e d' rest)"

definition webhook_processed :: response where
  "webhook_processed = Response 200 (Message ''Webhook processed'')"

definition internal_server_error :: response where
  "internal_server_error = Response 500 (Error ''Internal Server Error'')"

definition webhook :: "env \<Rightarrow> db \<Rightarrow> helius_tx list \<Rightarrow> db \<times> response" where
  "webhook e d transactions =
     (case process_transactions e d transactions of
        (d', None) \<Rightarrow> (d', webhook_processed)
      | (d', Some err) \<Rightarrow> (d', internal_server_error))"

section \<open>The remaining endpoints\<close>

fun string_of_nat :: "nat \<Rightarrow> string" where
  "string_of_nat n =
     (if n < 10 then [''0123456789'' ! n]
      else string_of_nat (n div 10) @ [''0123456789'' ! (n mod 10)])"

text \<open>
  \<^verbatim>\<open>user.save()\<close> of a new document: the unique indexes on \<^verbatim>\<open>walletAddress\<close> and
  \<^verbatim>\<open>referralCode\<close> reject a document that repeats a stored value.
\<close>

definition save_new_user :: "db \<Rightarrow> user \<Rightarrow> js_error + db" where
  "save_new_user d u =
     (if list_ex (\<lambda>v. user_walletAddress v = user_walletAddress u \<or> referralCode v = referralCode u)
           (users d)
      then Inl DuplicateKey
      else Inr (d\<lparr>users := users d @ [u]\<rparr>))"

definition user_info :: "user \<Rightarrow> response" where
  "user_info u =
     Response 200 (UserInfo (user_walletAddress u)
       (if truthy_str (referralCode u) then referralCode u else None)
       (referralEarnings u))"

text \<open>
  GET /user/:walletAddress; the second argument is the value of
  \<^verbatim>\<open>Math.floor(Math.random() * 100000)\<close>.
\<close>

definition get_user :: "db \<Rightarrow> string \<Rightarrow> nat \<Rightarrow> db \<times> response" where
  "get_user d w rnd =
     (case findOne_user_by_wallet (users d) w of
        Some (i, u) \<Rightarrow> (d, user_info u)
      | None \<Rightarrow>
          (let randomCode = ''REF'' @ string_of_nat rnd;
               u = \<lparr>user_walletAddress = w, referralCode = Some randomCode, referralEarnings = 0\<rparr>
           in (case save_new_user d u of
                 Inl err \<Rightarrow> (d, Response 500 (Error ''Failed to get user info''))
               | Inr d' \<Rightarrow> (d', user_info u))))"

definition user_purchases :: "db \<Rightarrow> string \<Rightarrow> response" where
  "user_purchases d w =
     (let ps = filter (\<lambda>p. walletAddress p = Some w) (purchases d);
          totalInvested = foldl (\<lambda>s p. s + usdSpent p) 0 ps;
          totalTokens = foldl (\<lambda>s p. s + tokensReceived p) 0 ps
      in Response 200 (UserPurchases totalInvested totalTokens))"

definition leaderboard :: "db \<Rightarrow> response" where
  "leaderboard d =
     Response 200 (Leaderboard (take 1000 (sort_key (\<lambda>u. - referralEarnings u) (users d))))"

section \<open>Requests served one after the other\<close>

datatype request =
    GetRaisedAmount
  | GetUser string nat
  | PostPurchase purchase_body
  | GetUserPurchases string
  | GetLeaderboard
  | PostWebhook "helius_tx list"

fun handle :: "env \<Rightarrow> db \<Rightarrow> request \<Rightarrow> db \<times> response" where
  "handle e d GetRaisedAmount = (d, raised_amount d)"
| "handle e d (GetUser w rnd) = get_user d w rnd"
| "handle e d (PostPurchase b) = post_purchase e d b"
| "handle e d (GetUserPurchases w) = (d, user_purchases d w)"
| "handle e d GetLeaderboard = (d, leaderboard d)"
| "handle e d (PostWebhook transactions) = webhook e d transactions"

text \<open>Each request comes with the environment as it is when the request is served.\<close>

fun serve :: "db \<Rightarrow> (env \<times> request) list \<Rightarrow> db" where
  "serve d [] = d"
| "serve d ((e, r) # rest) = serve (fst (handle e d r)) rest"

section \<open>Sample data\<close>

definition env1 :: env where
  "env1 = \<lparr>getTransaction =
             (\<lambda>s. if s = ''sig1'' \<or> s = ''sig2'' then TxInfo [''alice'', ''presale''] else TxNull),
           PublicKey = Some, PRESALE_WALLET = Some ''presale''\<rparr>"

definition env_down :: env where
  "env_down = \<lparr>getTransaction = (\<lambda>s. RpcThrows), PublicKey = Some,
               PRESALE_WALLET = Some ''presale''\<rparr>"

definition db0 :: db where
  "db0 = \<lparr>purchases = [], users = []\<rparr>"

definition bob :: user where
  "bob = \<lparr>user_walletAddress = ''bob'', referralCode = Some ''REF7'', referralEarnings = 0\<rparr>"

definition db1 :: db where
  "db1 = \<lparr>purchases = [], users = [bob]\<rparr>"

definition body1 :: purchase_body where
  "body1 = \<lparr>body_walletAddress = Some ''alice'', body_usdSpent = Some 100,
            body_tokensReceived = Some 11750, body_transactionId = Some ''sig1'',
            body_referralCode = Some ''REF7''\<rparr>"

definition body2 :: purchase_body where
  "body2 = \<lparr>body_walletAddress = Some ''alice'', body_usdSpent = Some 200,
            body_tokensReceived = Some 23500, body_transactionId = Some ''sig2'',
            body_referralCode = Some ''REF7''\<rparr>"

definition body_negative :: purchase_body where
  "body_negative = \<lparr>body_walletAddress = Some ''alice'', body_usdSpent = Some (- 100),
            body_tokensReceived = Some (- 11750), body_transactionId = Some ''sig1'',
            body_referralCode = Some ''REF7''\<rparr>"

definition body_no_wallet :: purchase_body where
  "body_no_wallet = \<lparr>body_walletAddress = None, body_usdSpent = Some 100,
            body_tokensReceived = Some 11750, body_transactionId = Some ''sig1'',
            body_referralCode = None\<rparr>"

definition tx_good :: helius_tx where
  "tx_good = \<lparr>signature = ''sig5'',
               instructions = [Unparsed, Parsed (Some ''other'') (Some 7),
                               Parsed (Some ''presale'') (Some 8510000)],
               signers = Some [''carol'']\<rparr>"

definition tx_bad :: helius_tx where
  "tx_bad = \<lparr>signature = ''sig4'', instructions = [Parsed (Some ''presale'') (Some 1000000)],
              signers = None\<rparr>"

definition tx_other :: helius_tx where
  "tx_other = \<lparr>signature = ''sig6'', instructions = [Parsed (Some ''elsewhere'') (Some 1000000)],
                signers = None\<rparr>"

definition reqs1 :: "(env \<times> request) list" where
  "reqs1 = [(env1, GetUser ''zed'' 1234), (env1, PostPurchase body1), (env1, GetRaisedAmount),
            (env1, PostWebhook [tx_good]), (env1, PostPurchase body2), (env1, GetLeaderboard)]"

text \<open>A request that is not a purchase with a negative \<^verbatim>\<open>usdSpent\<close>.\<close>

fun no_negative_amount :: "request \<Rightarrow> bool" where
  "no_negative_amount (PostPurchase b) =
     (case body_usdSpent b of None \<Rightarrow> True | Some a \<Rightarrow> 0 \<le> a)"
| "no_negative_amount r = True"

section \<open>Basic facts\<close>

lemmas sample_defs = env1_def env_down_def db0_def db1_def bob_def body1_def body2_def
  body_negative_def body_no_wallet_def tx_good_def tx_bad_def tx_other_def reqs1_def

lemmas resp_defs = missing_data_def invalid_transaction_def unable_to_validate_def
  duplicate_transaction_def recorded_def webhook_processed_def internal_server_error_def

lemmas op_defs = post_purchase_def purchase_checked_def validateSignatureOnChain_def
  validate_try_def presaleWalletKey_def findOne_purchase_def save_purchase_def
  findOne_user_by_code_def save_earnings_def referral_credit_def new_purchase_def
  truthy_str_def truthy_num_def

text \<open>The verifier never throws: its \<^verbatim>\<open>catch\<close> clause returns \<^verbatim>\<open>false\<close>.\<close>

lemma validate_returns: "\<exists>b. validateSignatureOnChain e t w a = Inr b"
  by (cases "validate_try e t w a") (auto simp: validateSignatureOnChain_def)

lemma never_unable: "snd (post_purchase e d b) \<noteq> unable_to_validate"
proof -
  obtain v where v: "validateSignatureOnChain e (the (body_transactionId b))
                   (the (body_walletAddress b)) (the (body_usdSpent b)) = Inr v"
    using validate_returns by blast
  show ?thesis
    by (simp add: post_purchase_def purchase_checked_def v resp_defs split: option.splits)
qed

lemma gate: "validateSignatureOnChain e tid w usd \<noteq> Inr True \<Longrightarrow>
   purchase_checked e d w usd tok tid code = (d, invalid_transaction)"
  using validate_returns[of e tid w usd]
  by (auto simp: purchase_checked_def)



lemma find_index_from_Some:
  "find_index_from P k xs = Some (i, x) \<Longrightarrow> k \<le> i \<and> i - k < length xs \<and> xs ! (i - k) = x \<and> P x"
proof (induction xs arbitrary: k)
  case Nil
  then show ?case by simp
next
  case (Cons y ys)
  show ?case
  proof (cases "P y")
    case True
    with Cons.prems show ?thesis by simp
  next
    case False
    with Cons.prems have "find_index_from P (Suc k) ys = Some (i, x)" by simp
    from Cons.IH[OF this] have ih: "Suc k \<le> i" "i - Suc k < length ys"
        "ys ! (i - Suc k) = x" "P x" by simp_all
    from ih(1) have "i - k = Suc (i - Suc k)" by arith
    with ih show ?thesis by simp
  qed
qed

lemma findOne_user_by_code_Some:
  "findOne_user_by_code us c = Some (i, u) \<Longrightarrow> i < length us \<and> us ! i = u \<and> referralCode u = Some c"
  using find_index_from_Some[of "\<lambda>u. referralCode u = Some c" 0 us i u]
  by (simp add: findOne_user_by_code_def)

text \<open>
  Run without interruption, the steps of a request compute what the handler, written as one
  function, computes.
\<close>

lemma run_alone_post_purchase:
  "run_alone e d (AtStart b) = (fst (post_purchase e d b), Responded (snd (post_purchase e d b)))"
proof -
  obtain v where v: "validateSignatureOnChain e (the (body_transactionId b))
                   (the (body_walletAddress b)) (the (body_usdSpent b)) = Inr v"
    using validate_returns by blast
  show ?thesis
    by (auto simp: run_alone_def post_purchase_def purchase_checked_def v referral_credit_def
          save_purchase_def
        split: option.splits prod.splits)
qed

lemma post_purchase_recorded:
  assumes "post_purchase e d b = (d', recorded)"
  shows "\<exists>w A tok tid. body_walletAddress b = Some w \<and> body_usdSpent b = Some A
           \<and> body_tokensReceived b = Some tok \<and> body_transactionId b = Some tid
           \<and> findOne_purchase (purchases d) tid = None
           \<and> d' = referral_credit (save_purchase d (new_purchase w A tok tid (body_referralCode b)))
                    (body_referralCode b) A"
proof -
  from assms have t: "truthy_str (body_walletAddress b)" "truthy_num (body_usdSpent b)"
      "truthy_num (body_tokensReceived b)" "truthy_str (body_transactionId b)"
    by (auto simp: post_purchase_def resp_defs split: if_splits)
  then obtain w A tok tid where f: "body_walletAddress b = Some w" "body_usdSpent b = Some A"
      "body_tokensReceived b = Some tok" "body_transactionId b = Some tid"
    by (auto simp: truthy_str_def truthy_num_def split: option.splits)
  from assms t f have "purchase_checked e d w A tok tid (body_referralCode b) = (d', recorded)"
    by (simp add: post_purchase_def)
  then have "findOne_purchase (purchases d) tid = None
      \<and> d' = referral_credit (save_purchase d (new_purchase w A tok tid (body_referralCode b)))
                    (body_referralCode b) A"
    by (auto simp: purchase_checked_def resp_defs split: sum.splits if_splits option.splits)
  with f show ?thesis by simp
qed

lemma purchases_referral_credit: "purchases (referral_credit d code usd) = purchases d"
  by (simp add: referral_credit_def save_earnings_def split: option.splits prod.splits)

lemma users_save_purchase: "users (save_purchase d p) = users d"
  by (simp add: save_purchase_def)

lemma post_purchase_not_recorded:
  "snd (post_purchase e d b) \<noteq> recorded \<Longrightarrow> fst (post_purchase e d b) = d"
  by (auto simp: post_purchase_def purchase_checked_def split: sum.splits option.splits)

lemma users_referral_credit:
  "users (referral_credit d code A) = users d \<or>
   (\<exists>i<length (users d). users (referral_credit d code A) =
       (users d)[i := (users d ! i)\<lparr>referralEarnings := referralEarnings (users d ! i) + 0.05 * A\<rparr>])"
proof (cases "truthy_str code")
  case False
  then show ?thesis by (simp add: referral_credit_def)
next
  case True
  show ?thesis
  proof (cases "findOne_user_by_code (users d) (the code)")
    case None
    with True show ?thesis by (simp add: referral_credit_def)
  next
    case (Some iu)
    obtain i u where iu: "iu = (i, u)" by (cases iu)
    from findOne_user_by_code_Some[OF Some[unfolded iu]]
    have "i < length (users d)" "users d ! i = u" by simp_all
    with True Some iu show ?thesis
      by (auto simp: referral_credit_def save_earnings_def)
  qed
qed

lemma post_purchase_users:
  "users (fst (post_purchase e d b)) = users d \<or>
   (\<exists>A. body_usdSpent b = Some A \<and> (\<exists>i<length (users d). users (fst (post_purchase e d b)) =
       (users d)[i := (users d ! i)\<lparr>referralEarnings := referralEarnings (users d ! i) + 0.05 * A\<rparr>]))"
proof (cases "snd (post_purchase e d b) = recorded")
  case False
  then show ?thesis by (simp add: post_purchase_not_recorded)
next
  case True
  then have "post_purchase e d b = (fst (post_purchase e d b), recorded)"
    by (metis prod.collapse)
  from post_purchase_recorded[OF this] obtain w A tok tid where
    A: "body_usdSpent b = Some A" and
    d': "fst (post_purchase e d b) =
           referral_credit (save_purchase d (new_purchase w A tok tid (body_referralCode b)))
             (body_referralCode b) A"
    by blast
  from users_referral_credit[of "save_purchase d (new_purchase w A tok tid (body_referralCode b))"
        "body_referralCode b" A]
  show ?thesis
    unfolding d'[symmetric] users_save_purchase using A by simp
qed

lemma users_process_instruction: "users (fst (process_instruction e tx d inst)) = users d"
  by (simp add: process_instruction_def save_purchase_def Let_def split: instruction.splits option.splits)

lemma users_process_instructions: "users (fst (process_instructions e tx d insts)) = users d"
proof (induction insts arbitrary: d)
  case Nil
  then show ?case by simp
next
  case (Cons inst rest)
  obtain d1 r where s: "process_instruction e tx d inst = (d1, r)" by (cases "process_instruction e tx d inst")
  then have "users d1 = users d" using users_process_instruction[of e tx d inst] by simp
  with Cons.IH[of d1] s show ?case by (cases r) simp_all
qed

lemma users_process_transactions: "users (fst (process_transactions e d txs)) = users d"
proof (induction txs arbitrary: d)
  case Nil
  then show ?case by simp
next
  case (Cons tx rest)
  obtain d1 r where s: "process_instructions e tx d (instructions tx) = (d1, r)"
    by (cases "process_instructions e tx d (instructions tx)")
  then have "users d1 = users d" using users_process_instructions[of e tx d "instructions tx"] by simp
  with Cons.IH[of d1] s show ?case by (cases r) simp_all
qed

lemma users_webhook: "users (fst (webhook e d txs)) = users d"
  using users_process_transactions[of e d txs]
  by (auto simp: webhook_def split: prod.splits option.splits)

lemma users_get_user:
  "\<exists>new. users (fst (get_user d w rnd)) = users d @ new \<and> (\<forall>u\<in>set new. referralEarnings u = 0)"
  by (auto simp: get_user_def save_new_user_def Let_def split: option.splits prod.splits)

lemma handle_not_purchase:
  "(\<forall>b. r \<noteq> PostPurchase b) \<Longrightarrow>
   \<exists>new. users (fst (handle e d r)) = users d @ new \<and> (\<forall>u\<in>set new. referralEarnings u = 0)"
  by (cases r) (simp_all add: users_get_user users_webhook)

lemma handle_earnings:
  assumes "no_negative_amount r"
  shows "length (users d) \<le> length (users (fst (handle e d r)))
     \<and> (\<forall>i<length (users d). referralEarnings (users d ! i)
            \<le> referralEarnings (users (fst (handle e d r)) ! i))
     \<and> ((\<forall>u\<in>set (users d). 0 \<le> referralEarnings u)
          \<longrightarrow> (\<forall>u\<in>set (users (fst (handle e d r))). 0 \<le> referralEarnings u))"
proof (cases "\<exists>b. r = PostPurchase b")
  case False
  then obtain new where n: "users (fst (handle e d r)) = users d @ new"
      "\<forall>u\<in>set new. referralEarnings u = 0"
    using handle_not_purchase[of r e d] by blast
  then show ?thesis by (auto simp: nth_append)
next
  case True
  then obtain b where r: "r = PostPurchase b" by blast
  from post_purchase_users[of e d b] show ?thesis
  proof
    assume "users (fst (post_purchase e d b)) = users d"
    then show ?thesis by (simp add: r)
  next
    assume "\<exists>A. body_usdSpent b = Some A \<and> (\<exists>i<length (users d). users (fst (post_purchase e d b)) =
       (users d)[i := (users d ! i)\<lparr>referralEarnings := referralEarnings (users d ! i) + 0.05 * A\<rparr>])"
    then obtain A i where A: "body_usdSpent b = Some A" and i: "i < length (users d)" and
      u: "users (fst (post_purchase e d b)) =
       (users d)[i := (users d ! i)\<lparr>referralEarnings := referralEarnings (users d ! i) + 0.05 * A\<rparr>]"
      by blast
    from assms r A have A0: "0 \<le> A" by simp
    have m: "\<forall>j<length (users d). referralEarnings (users d ! j)
            \<le> referralEarnings (users (fst (post_purchase e d b)) ! j)"
      using A0 i by (auto simp: u nth_list_update)
    have n: "\<forall>u\<in>set (users (fst (post_purchase e d b))). 0 \<le> referralEarnings u"
      if h: "\<forall>u\<in>set (users d). 0 \<le> referralEarnings u"
    proof
      fix x assume "x \<in> set (users (fst (post_purchase e d b)))"
      then obtain j where j: "j < length (users d)" "x = users (fst (post_purchase e d b)) ! j"
        by (metis in_set_conv_nth length_list_update u)
      from h j(1) have "0 \<le> referralEarnings (users d ! j)" by simp
      with m j show "0 \<le> referralEarnings x" by force
    qed
    from m n show ?thesis by (simp add: r u)
  qed
qed

lemma serve_earnings:
  assumes "\<forall>(e, r)\<in>set reqs. no_negative_amount r"
  shows "length (users d) \<le> length (users (serve d reqs))
     \<and> (\<forall>i<length (users d). referralEarnings (users d ! i)
            \<le> referralEarnings (users (serve d reqs) ! i))
     \<and> ((\<forall>u\<in>set (users d). 0 \<le> referralEarnings u)
          \<longrightarrow> (\<forall>u\<in>set (users (serve d reqs)). 0 \<le> referralEarnings u))"
  using assms
proof (induction reqs arbitrary: d)
  case Nil
  then show ?case by simp
next
  case (Cons er rest)
  obtain e r where er: "er = (e, r)" by (cases er)
  from Cons.prems er have nr: "no_negative_amount r" and
    rest: "\<forall>(e, r)\<in>set rest. no_negative_amount r" by auto
  let ?d1 = "fst (handle e d r)"
  note h = handle_earnings[OF nr, of d e]
  note ih = Cons.IH[OF rest, of ?d1]
  have s: "serve d (er # rest) = serve ?d1 rest" by (simp add: er)
  have 1: "length (users d) \<le> length (users (serve ?d1 rest))"
    using h ih by linarith
  have 2: "\<forall>i<length (users d). referralEarnings (users d ! i)
            \<le> referralEarnings (users (serve ?d1 rest) ! i)"
  proof (intro allI impI)
    fix i assume i: "i < length (users d)"
    with h have a: "referralEarnings (users d ! i) \<le> referralEarnings (users ?d1 ! i)"
      and "i < length (users ?d1)" by auto
    with ih have "referralEarnings (users ?d1 ! i) \<le> referralEarnings (users (serve ?d1 rest) ! i)"
      by simp
    with a show "referralEarnings (users d ! i) \<le> referralEarnings (users (serve ?d1 rest) ! i)"
      by linarith
  qed
  have 3: "(\<forall>u\<in>set (users d). 0 \<le> referralEarnings u)
          \<longrightarrow> (\<forall>u\<in>set (users (serve ?d1 rest)). 0 \<le> referralEarnings u)"
    using h ih by blast
  from 1 2 3 show ?case unfolding s by blast
qed

lemma findOne_purchase_append:
  "findOne_purchase (ps @ [p]) (transactionId p) \<noteq> None"
  by (auto simp: findOne_purchase_def find_None_iff)

text \<open>
  Served after a recorded purchase, a submission with the same \<^verbatim>\<open>transactionId\<close> stores
  nothing and is refused.
\<close>

lemma sequential_duplicate:
  assumes "post_purchase e d b = (d1, recorded)"
    and "body_transactionId b' = body_transactionId b"
  shows "fst (post_purchase e' d1 b') = d1
     \<and> snd (post_purchase e' d1 b') \<in> {missing_data, invalid_transaction, duplicate_transaction}"
proof -
  from post_purchase_recorded[OF assms(1)] obtain w A tok tid where
    tid: "body_transactionId b = Some tid" and
    d1: "d1 = referral_credit (save_purchase d (new_purchase w A tok tid (body_referralCode b)))
                (body_referralCode b) A"
    by blast
  have "purchases d1 = purchases d @ [new_purchase w A tok tid (body_referralCode b)]"
    by (simp add: d1 purchases_referral_credit save_purchase_def)
  moreover have "transactionId (new_purchase w A tok tid (body_referralCode b)) = tid"
    by (simp add: new_purchase_def)
  ultimately have f: "findOne_purchase (purchases d1) tid \<noteq> None"
    using findOne_purchase_append[of "purchases d" "new_purchase w A tok tid (body_referralCode b)"]
    by simp
  obtain v where v: "validateSignatureOnChain e' tid
                   (the (body_walletAddress b')) (the (body_usdSpent b')) = Inr v"
    using validate_returns by blast
  from f show ?thesis
    by (auto simp: post_purchase_def purchase_checked_def v assms(2) tid)
qed





lemma process_instruction_new:
  "\<exists>new. purchases (fst (process_instruction e tx d inst)) = purchases d @ new
     \<and> (\<forall>p\<in>set new. referralCodeUsed p = None \<and> transactionId p = signature tx
          \<and> (\<exists>a. inst = Parsed (PRESALE_WALLET e) (Some a) \<and> usdSpent p = a / 1000000
                 \<and> tokensReceived p = a / 1000000 / 0.00851))"
proof (cases inst)
  case Unparsed
  then show ?thesis by (simp add: process_instruction_def)
next
  case (Parsed dest amount)
  show ?thesis
  proof (cases "dest = PRESALE_WALLET e \<and> signers tx \<noteq> None
      \<and> findOne_purchase (purchases d) (signature tx) = None \<and> amount \<noteq> None")
    case True
    then obtain sg a where "signers tx = Some sg" "amount = Some a" by auto
    with True Parsed show ?thesis
      by (simp add: process_instruction_def save_purchase_def Let_def)
  next
    case False
    then have "fst (process_instruction e tx d inst) = d"
      by (auto simp: process_instruction_def Parsed split: option.splits)
    then show ?thesis by simp
  qed
qed

lemma process_instructions_new:
  "\<exists>new. purchases (fst (process_instructions e tx d insts)) = purchases d @ new
     \<and> (\<forall>p\<in>set new. referralCodeUsed p = None \<and> transactionId p = signature tx
          \<and> (\<exists>a. Parsed (PRESALE_WALLET e) (Some a) \<in> set insts \<and> usdSpent p = a / 1000000
                 \<and> tokensReceived p = a / 1000000 / 0.00851))"
proof (induction insts arbitrary: d)
  case Nil
  then show ?case by simp
next
  case (Cons inst rest)
  obtain d1 r where s: "process_instruction e tx d inst = (d1, r)"
    by (cases "process_instruction e tx d inst")
  from process_instruction_new[of e tx d inst] s obtain n1 where
    n1: "purchases d1 = purchases d @ n1"
      "\<forall>p\<in>set n1. referralCodeUsed p = None \<and> transactionId p = signature tx
          \<and> (\<exists>a. inst = Parsed (PRESALE_WALLET e) (Some a) \<and> usdSpent p = a / 1000000
                 \<and> tokensReceived p = a / 1000000 / 0.00851)"
    by auto
  show ?case
  proof (cases r)
    case (Some err)
    with s have "fst (process_instructions e tx d (inst # rest)) = d1" by simp
    with n1 show ?thesis by (intro exI[of _ n1]) auto
  next
    case None
    with s have f: "process_instructions e tx d (inst # rest) = process_instructions e tx d1 rest"
      by simp
    from Cons.IH[of d1] obtain n2 where
      n2: "purchases (fst (process_instructions e tx d1 rest)) = purchases d1 @ n2"
        "\<forall>p\<in>set n2. referralCodeUsed p = None \<and> transactionId p = signature tx
          \<and> (\<exists>a. Parsed (PRESALE_WALLET e) (Some a) \<in> set rest \<and> usdSpent p = a / 1000000
                 \<and> tokensReceived p = a / 1000000 / 0.00851)"
      by blast
    show ?thesis
      unfolding f using n1 n2 by (intro exI[of _ "n1 @ n2"]) auto
  qed
qed

lemma process_transactions_new:
  "\<exists>new. purchases (fst (process_transactions e d txs)) = purchases d @ new
     \<and> (\<forall>p\<in>set new. referralCodeUsed p = None
          \<and> (\<exists>tx\<in>set txs. \<exists>a. Parsed (PRESALE_WALLET e) (Some a) \<in> set (instructions tx)
                 \<and> transactionId p = signature tx \<and> usdSpent p = a / 1000000
                 \<and> tokensReceived p = a / 1000000 / 0.00851))"
proof (induction txs arbitrary: d)
  case Nil
  then show ?case by simp
next
  case (Cons tx rest)
  obtain d1 r where s: "process_instructions e tx d (instructions tx) = (d1, r)"
    by (cases "process_instructions e tx d (instructions tx)")
  from process_instructions_new[of e tx d "instructions tx"] s obtain n1 where
    n1: "purchases d1 = purchases d @ n1"
      "\<forall>p\<in>set n1. referralCodeUsed p = None \<and> transactionId p = signature tx
          \<and> (\<exists>a. Parsed (PRESALE_WALLET e) (Some a) \<in> set (instructions tx)
                 \<and> usdSpent p = a / 1000000 \<and> tokensReceived p = a / 1000000 / 0.00851)"
    by auto
  show ?case
  proof (cases r)
    case (Some err)
    with s have "fst (process_transactions e d (tx # rest)) = d1" by simp
    with n1 show ?thesis by (intro exI[of _ n1]) auto
  next
    case None
    with s have f: "process_transactions e d (tx # rest) = process_transactions e d1 rest"
      by simp
    from Cons.IH[of d1] obtain n2 where
      n2: "purchases (fst (process_transactions e d1 rest)) = purchases d1 @ n2"
        "\<forall>p\<in>set n2. referralCodeUsed p = None
          \<and> (\<exists>tx\<in>set rest. \<exists>a. Parsed (PRESALE_WALLET e) (Some a) \<in> set (instructions tx)
                 \<and> transactionId p = signature tx \<and> usdSpent p = a / 1000000
                 \<and> tokensReceived p = a / 1000000 / 0.00851)"
      by blast
    show ?thesis
      unfolding f using n1 n2 by (intro exI[of _ "n1 @ n2"]) auto
  qed
qed

lemma fst_webhook: "fst (webhook e d txs) = fst (process_transactions e d txs)"
  by (simp add: webhook_def split: prod.splits option.splits)

section \<open>The claims\<close>

text \<open>
  Claim C1 (idempotency of POST /purchase by an atomic insert-if-absent). The handler looks
  the transaction up with \<^verbatim>\<open>Purchase.findOne\<close> and saves in a second awaited operation,
  and \<^verbatim>\<open>purchaseSchema\<close> has no unique index on \<^verbatim>\<open>transactionId\<close>. Served one
  after the other, a second submission is refused (lemma \<open>sequential_duplicate\<close>). When
  two submissions of the same transaction are in flight and both lookups complete before
  either save, both are recorded: two purchases with the same \<^verbatim>\<open>transactionId\<close> are
  stored and both callers get the success response.
\<close>

theorem duplicate_submission_race:
  "run_schedule env1 [0, 1, 0, 1, 0, 1, 0, 1] (db0, [AtStart body1, AtStart body1]) =
     (\<lparr>purchases = [new_purchase ''alice'' 100 11750 ''sig1'' (Some ''REF7''),
                    new_purchase ''alice'' 100 11750 ''sig1'' (Some ''REF7'')],
       users = []\<rparr>,
      [Responded recorded, Responded recorded])"
  by (simp add: op_defs sample_defs)



text \<open>
  Claim C3 (a rejected or indeterminate verdict stores nothing and is reported with a
  message that tells an invalid transaction from an inability to validate). Nothing is
  stored in either case (lemma \<open>gate\<close>), but the messages do not differ: the verifier
  catches the failure of the RPC call itself and returns \<^verbatim>\<open>false\<close>, so the handler's
  own \<^verbatim>\<open>catch\<close> with "Unable to validate transaction." is never reached (lemma
  \<open>never_unable\<close>). For a body that passes the basic checks, with the node
  unreachable the database is unchanged and the answer is 400 "Invalid or fake
  transaction.", the answer given when the node does not know the transaction.
\<close>

theorem indeterminate_reported_as_invalid:
  assumes "body_walletAddress b = Some w" "w \<noteq> []" "body_usdSpent b = Some A" "A \<noteq> 0"
    "body_tokensReceived b = Some tok" "tok \<noteq> 0" "body_transactionId b = Some tid" "tid \<noteq> []"
    and "getTransaction e tid = RpcThrows"
  shows "post_purchase e d b = (d, invalid_transaction)
    \<and> (getTransaction e' tid = TxNull \<longrightarrow> post_purchase e' d b = post_purchase e d b)
    \<and> invalid_transaction \<noteq> unable_to_validate"
  using assms
  by (simp add: op_defs resp_defs)

text \<open>
  Witness of C3: the same body against an unreachable node and against a node that does not
  know the transaction.
\<close>

theorem indeterminate_reported_as_invalid_witness:
  "post_purchase env_down db1 (body1\<lparr>body_transactionId := Some ''sig9''\<rparr>)
     = (db1, invalid_transaction)
   \<and> post_purchase env1 db1 (body1\<lparr>body_transactionId := Some ''sig9''\<rparr>)
       = post_purchase env_down db1 (body1\<lparr>body_transactionId := Some ''sig9''\<rparr>)"
  using indeterminate_reported_as_invalid
    [where b = "body1\<lparr>body_transactionId := Some ''sig9''\<rparr>" and w = "''alice''"
      and A = 100 and tok = 11750 and tid = "''sig9''" and e = env_down and e' = env1 and d = db1]
  by (simp add: sample_defs)

text \<open>
  Claim C4 as stated (every body with a negative \<^verbatim>\<open>usdSpent\<close> or \<^verbatim>\<open>tokensReceived\<close>
  is rejected by the input check) fails: a negative number is truthy, the verifier does
  not look at the amount, and the purchase is recorded.
\<close>

theorem negative_amount_not_rejected:
  "body_usdSpent body_negative = Some (- 100) \<and> body_tokensReceived body_negative = Some (- 11750)
   \<and> post_purchase env1 db1 body_negative =
       (\<lparr>purchases = [\<lparr>walletAddress = Some ''alice'', usdSpent = - 100, tokensReceived = - 11750,
                       transactionId = ''sig1'', referralCodeUsed = Some ''REF7''\<rparr>],
         users = [bob\<lparr>referralEarnings := - 5\<rparr>]\<rparr>, recorded)
   \<and> recorded \<noteq> missing_data"
  by (simp add: op_defs sample_defs resp_defs)

text \<open>
  Claim C4, amended: if any of \<^verbatim>\<open>walletAddress\<close>, \<^verbatim>\<open>usdSpent\<close>,
  \<^verbatim>\<open>tokensReceived\<close>, \<^verbatim>\<open>transactionId\<close> is absent, an empty string or zero, POST
  /purchase answers 400 "Missing data" whatever the chain says and leaves the database as
  it is; a body whose four fields are present, non-empty and non-zero (negative amounts
  included) is not rejected by this check.
\<close>

theorem falsy_fields_rejected:
  "(body_walletAddress b = None \<or> body_walletAddress b = Some [] \<or>
    body_usdSpent b = None \<or> body_usdSpent b = Some 0 \<or>
    body_tokensReceived b = None \<or> body_tokensReceived b = Some 0 \<or>
    body_transactionId b = None \<or> body_transactionId b = Some []
      \<longrightarrow> post_purchase e d b = (d, missing_data))
   \<and> (\<not> (body_walletAddress b = None \<or> body_walletAddress b = Some [] \<or>
    body_usdSpent b = None \<or> body_usdSpent b = Some 0 \<or>
    body_tokensReceived b = None \<or> body_tokensReceived b = Some 0 \<or>
    body_transactionId b = None \<or> body_transactionId b = Some [])
      \<longrightarrow> snd (post_purchase e d b) \<noteq> missing_data)"
proof -
  obtain v where v: "validateSignatureOnChain e (the (body_transactionId b))
                   (the (body_walletAddress b)) (the (body_usdSpent b)) = Inr v"
    using validate_returns by blast
  have 1: "post_purchase e d b = (d, missing_data)"
    if "body_walletAddress b = None \<or> body_walletAddress b = Some [] \<or>
    body_usdSpent b = None \<or> body_usdSpent b = Some 0 \<or>
    body_tokensReceived b = None \<or> body_tokensReceived b = Some 0 \<or>
    body_transactionId b = None \<or> body_transactionId b = Some []"
    using that by (auto simp: post_purchase_def truthy_str_def truthy_num_def)
  have 2: "snd (post_purchase e d b) \<noteq> missing_data"
    if "\<not> (body_walletAddress b = None \<or> body_walletAddress b = Some [] \<or>
    body_usdSpent b = None \<or> body_usdSpent b = Some 0 \<or>
    body_tokensReceived b = None \<or> body_tokensReceived b = Some 0 \<or>
    body_transactionId b = None \<or> body_transactionId b = Some [])"
  proof -
    from that have "truthy_str (body_walletAddress b)" "truthy_num (body_usdSpent b)"
      "truthy_num (body_tokensReceived b)" "truthy_str (body_transactionId b)"
      by (auto simp: truthy_str_def truthy_num_def)
    then show ?thesis
      by (simp add: post_purchase_def purchase_checked_def v resp_defs split: option.splits)
  qed
  from 1 2 show ?thesis by blast
qed

text \<open>
  Witness of the amended C4: a body without wallet is refused even with the node down; the
  body with negative amounts is not refused by the check.
\<close>

theorem falsy_fields_rejected_witness:
  "post_purchase env_down db1 body_no_wallet = (db1, missing_data)
   \<and> snd (post_purchase env1 db1 body_negative) \<noteq> missing_data"
  using falsy_fields_rejected[of body_no_wallet env_down db1]
    falsy_fields_rejected[of body_negative env1 db1]
  by (simp add: sample_defs)

text \<open>
  Claim C5 as stated (\<^verbatim>\<open>referralEarnings\<close> is non-negative and never decreases, for
  every sequence of requests) fails: a recorded purchase with a negative \<^verbatim>\<open>usdSpent\<close>
  credits a negative bonus.
\<close>

theorem negative_purchase_lowers_earnings:
  "referralEarnings (users db1 ! 0) = 0
   \<and> referralEarnings (users (serve db1 [(env1, PostPurchase body_negative)]) ! 0) = - 5"
  by (simp add: op_defs sample_defs)

text \<open>
  Claim C5, amended: over requests served one after the other, none of them a purchase with
  a negative \<^verbatim>\<open>usdSpent\<close>, no account disappears, no account's \<^verbatim>\<open>referralEarnings\<close>
  decreases, and if all earnings were non-negative they remain so; a request other than
  POST /purchase leaves the existing accounts as they are and creates accounts only with
  earnings 0.
\<close>

theorem earnings_monotone:
  assumes "\<forall>(e, r)\<in>set reqs. no_negative_amount r"
  shows "length (users d) \<le> length (users (serve d reqs))
     \<and> (\<forall>i<length (users d). referralEarnings (users d ! i)
            \<le> referralEarnings (users (serve d reqs) ! i))
     \<and> ((\<forall>u\<in>set (users d). 0 \<le> referralEarnings u)
          \<longrightarrow> (\<forall>u\<in>set (users (serve d reqs)). 0 \<le> referralEarnings u))
     \<and> ((\<forall>b. r \<noteq> PostPurchase b) \<longrightarrow>
          (\<exists>new. users (fst (handle e d r)) = users d @ new
                 \<and> (\<forall>u\<in>set new. referralEarnings u = 0)))"
  using serve_earnings[OF assms, of d] handle_not_purchase[of r e d] by blast

text \<open>
  Witness of the amended C5: an account creation, two purchases crediting the same code, a
  webhook batch and two reads, on a database with one account.
\<close>

theorem earnings_monotone_witness:
  "list_all (\<lambda>(e, r). no_negative_amount r) reqs1
   \<and> map referralEarnings (users db1) = [0]
   \<and> map referralEarnings (users (serve db1 reqs1)) = [15, 0]
   \<and> length (users db1) \<le> length (users (serve db1 reqs1))
   \<and> referralEarnings (users db1 ! 0) \<le> referralEarnings (users (serve db1 reqs1) ! 0)
   \<and> (\<exists>new. users (fst (handle env1 db1 (GetUser ''zed'' 1234))) = users db1 @ new
                 \<and> list_all (\<lambda>u. referralEarnings u = 0) new)"
proof -
  have h: "\<forall>(e, r)\<in>set reqs1. no_negative_amount r"
    by (simp add: reqs1_def sample_defs)
  have p: "0 < length (users db1)"
    by (simp add: sample_defs)
  have ev: "map referralEarnings (users db1) = [0]"
    "map referralEarnings (users (serve db1 reqs1)) = [15, 0]"
    by (simp_all add: op_defs sample_defs get_user_def save_new_user_def findOne_user_by_wallet_def
        webhook_def process_instruction_def Let_def)
  from earnings_monotone[OF h, of db1 "GetUser ''zed'' 1234" env1] h p ev show ?thesis
    by (simp add: list_all_iff)
qed

text \<open>
  Claim C6 (the credit is an atomic increment, so concurrent credits to one referral code add
  up). The handler reads the account, adds the bonus in application code and saves the
  result. When two purchases crediting the same code both read the account before either
  saves, the second save overwrites the first: with bonuses 5 and 10 the earnings end at 10,
  while the same two purchases served one after the other end at 15.
\<close>

theorem referral_credit_lost_update:
  "map referralEarnings
     (users (fst (run_schedule env1 [0, 1, 0, 1, 0, 1, 0, 1, 0, 1]
                    (db1, [AtStart body1, AtStart body2])))) = [10]
   \<and> snd (run_schedule env1 [0, 1, 0, 1, 0, 1, 0, 1, 0, 1] (db1, [AtStart body1, AtStart body2]))
       = [Responded recorded, Responded recorded]
   \<and> map referralEarnings
       (users (serve db1 [(env1, PostPurchase body1), (env1, PostPurchase body2)])) = [15]"
  by (simp add: op_defs sample_defs)

text \<open>
  Claim C7 as stated (the verifier returns a verdict other than confirmed whenever the
  claimed amount is at most 0) fails: the verifier confirms a transaction with a claimed
  amount of -100.
\<close>

theorem verifier_confirms_negative_amount:
  "validateSignatureOnChain env1 ''sig1'' ''alice'' (- 100) = Inr True"
  by (simp add: op_defs sample_defs)

text \<open>
  Claim C7, amended: the verifier does not read the claimed amount; its verdict is the same
  for every claimed amount, so it neither bound-checks the amount nor recomputes it from the
  transaction.
\<close>

theorem verifier_ignores_amount:
  "validateSignatureOnChain e txSignature fromWallet a
     = validateSignatureOnChain e txSignature fromWallet a'"
  by (simp add: validateSignatureOnChain_def validate_try_def)





text \<open>
  Claim C10 (frame of the webhook path). POST /webhook/solana-inbound leaves every account
  as it is, whatever the batch and whether it answers 200 or 500. It only appends
  purchases, and each appended purchase has no \<^verbatim>\<open>referralCodeUsed\<close>, carries the
  signature of a record of the batch, and has \<^verbatim>\<open>usdSpent\<close> = amount / 1e6 and
  \<^verbatim>\<open>tokensReceived\<close> = (amount / 1e6) / 0.00851 for the amount of an instruction of that
  record whose destination is the presale wallet.
\<close>

theorem webhook_frame:
  "users (fst (webhook e d txs)) = users d
   \<and> (\<exists>new. purchases (fst (webhook e d txs)) = purchases d @ new
     \<and> (\<forall>p\<in>set new. referralCodeUsed p = None
          \<and> (\<exists>tx\<in>set txs. \<exists>a. Parsed (PRESALE_WALLET e) (Some a) \<in> set (instructions tx)
                 \<and> transactionId p = signature tx \<and> usdSpent p = a / 1000000
                 \<and> tokensReceived p = a / 1000000 / 0.00851)))"
  using process_transactions_new[of e d txs] users_webhook[of e d txs]
  by (simp add: fst_webhook)

text \<open>Witness of C10: a batch with a foreign record and a record paying 8510000 units.\<close>

theorem webhook_frame_witness:
  "users (fst (webhook env1 db1 [tx_other, tx_good])) = users db1
   \<and> (\<exists>p. purchases (fst (webhook env1 db1 [tx_other, tx_good])) = [p]
        \<and> referralCodeUsed p = None \<and> transactionId p = ''sig5''
        \<and> usdSpent p = 8510000 / 1000000 \<and> tokensReceived p = 8510000 / 1000000 / 0.00851)"
proof -
  have ev: "purchases (fst (webhook env1 db1 [tx_other, tx_good])) =
      [\<lparr>walletAddress = Some ''carol'', usdSpent = 851 / 100, tokensReceived = 1000,
        transactionId = ''sig5'', referralCodeUsed = None\<rparr>]"
    by (simp add: webhook_def process_instruction_def findOne_purchase_def save_purchase_def
        sample_defs)
  from webhook_frame[of env1 db1 "[tx_other, tx_good]"] have
    u: "users (fst (webhook env1 db1 [tx_other, tx_good])) = users db1"
    by blast
  from ev u show ?thesis by simp
qed

end
